theory Spec2Isabelle
  imports Main "HOL-Library.Word" "HOL-Library.Signed_Division"
begin

unbundle bit_operations_syntax

section \<open>Boot journal: boot\_journal.h and boot\_journal.c\<close>

subsection \<open>Constants and the record\<close>

type_synonym u8 = "8 word"
type_synonym u32 = "32 word"
type_synonym u64 = "64 word"

definition JOURNAL_MAGIC :: u32 where "JOURNAL_MAGIC = 0xA771A771"
definition JOURNAL_VERSION :: u32 where "JOURNAL_VERSION = 1"
definition TIER_1 :: u8 where "TIER_1 = 1"
definition TIER_2 :: u8 where "TIER_2 = 2"
definition TIER_3 :: u8 where "TIER_3 = 3"
definition DEFAULT_TRIES_T2 :: u8 where "DEFAULT_TRIES_T2 = 3"
definition DEFAULT_TRIES_T3 :: u8 where "DEFAULT_TRIES_T3 = 3"

definition JOURNAL_OK :: int where "JOURNAL_OK = 0"
definition JOURNAL_ERR_IO :: int where "JOURNAL_ERR_IO = - 1"
definition JOURNAL_ERR_CORRUPT :: int where "JOURNAL_ERR_CORRUPT = - 2"
definition JOURNAL_ERR_INVALID :: int where "JOURNAL_ERR_INVALID = - 3"
definition JOURNAL_ERR_NOMEM :: int where "JOURNAL_ERR_NOMEM = - 4"

text \<open>
  \<^verbatim>\<open>struct BootRecord\<close> is packed: its ten fields occupy 36 consecutive bytes with no
  padding, so a value of the record below and a 36-byte page determine each other.
\<close>

record BootRecord =
  version :: u32
  tier :: u8
  tries_t2 :: u8
  tries_t3 :: u8
  rollback_idx :: u8
  flags :: u32
  boot_count :: u64
  timestamp :: u64
  crc32 :: u32
  trailer :: u32

subsection \<open>Byte image of a record (little-endian, packed)\<close>

definition le32 :: "u32 \<Rightarrow> u8 list" where
  "le32 w = [ucast w, ucast (drop_bit 8 w), ucast (drop_bit 16 w), ucast (drop_bit 24 w)]"

definition le64 :: "u64 \<Rightarrow> u8 list" where
  "le64 w = [ucast w, ucast (drop_bit 8 w), ucast (drop_bit 16 w), ucast (drop_bit 24 w),
             ucast (drop_bit 32 w), ucast (drop_bit 40 w), ucast (drop_bit 48 w),
             ucast (drop_bit 56 w)]"

definition rd32 :: "u8 list \<Rightarrow> u32" where
  "rd32 bs = ucast (bs ! 0) OR push_bit 8 (ucast (bs ! 1)) OR push_bit 16 (ucast (bs ! 2))
             OR push_bit 24 (ucast (bs ! 3))"

definition rd64 :: "u8 list \<Rightarrow> u64" where
  "rd64 bs = ucast (bs ! 0) OR push_bit 8 (ucast (bs ! 1)) OR push_bit 16 (ucast (bs ! 2))
             OR push_bit 24 (ucast (bs ! 3)) OR push_bit 32 (ucast (bs ! 4))
             OR push_bit 40 (ucast (bs ! 5)) OR push_bit 48 (ucast (bs ! 6))
             OR push_bit 56 (ucast (bs ! 7))"

text \<open>\<^verbatim>\<open>offsetof(struct BootRecord, crc32)\<close> and \<^verbatim>\<open>sizeof(struct BootRecord)\<close>.\<close>

definition CRC_OFFSET :: nat where "CRC_OFFSET = 28"
definition PAGE_SIZE :: nat where "PAGE_SIZE = 36"
definition PAGE_A_OFFSET :: nat where "PAGE_A_OFFSET = 0"
definition PAGE_B_OFFSET :: nat where "PAGE_B_OFFSET = PAGE_SIZE"
definition JOURNAL_FILE_SIZE :: nat where "JOURNAL_FILE_SIZE = PAGE_SIZE * 2"

text \<open>The bytes of a record in memory, which \<^verbatim>\<open>write\<close> copies to the file.\<close>

definition record_bytes :: "BootRecord \<Rightarrow> u8 list" where
  "record_bytes r =
     le32 (version r) @ [tier r, tries_t2 r, tries_t3 r, rollback_idx r] @ le32 (flags r)
     @ le64 (boot_count r) @ le64 (timestamp r) @ le32 (crc32 r) @ le32 (trailer r)"

text \<open>The record that 36 bytes read from the file leave in memory. Only applied to lists of
  exactly \<open>PAGE_SIZE\<close> bytes.\<close>

definition bytes_record :: "u8 list \<Rightarrow> BootRecord" where
  "bytes_record bs =
     \<lparr> version = rd32 (take 4 bs), tier = bs ! 4, tries_t2 = bs ! 5, tries_t3 = bs ! 6,
       rollback_idx = bs ! 7, flags = rd32 (take 4 (drop 8 bs)),
       boot_count = rd64 (take 8 (drop 12 bs)), timestamp = rd64 (take 8 (drop 20 bs)),
       crc32 = rd32 (take 4 (drop 28 bs)), trailer = rd32 (take 4 (drop 32 bs)) \<rparr>"

subsection \<open>CRC engine\<close>

text \<open>
  \<^verbatim>\<open>crc32_init_table\<close> fills entry \<open>i\<close> of the table with eight rounds of the reflected
  polynomial; the table is a cache of that function on \<open>0..255\<close>, and every lookup masks
  its index with \<open>0xFF\<close>.
\<close>

definition crc32_round :: "u32 \<Rightarrow> u32" where
  "crc32_round crc =
     (if crc AND 1 \<noteq> 0 then drop_bit 1 crc XOR 0xEDB88320 else drop_bit 1 crc)"

definition crc32_table :: "u32 \<Rightarrow> u32" where
  "crc32_table i = (crc32_round ^^ 8) i"

definition crc32_compute :: "u8 list \<Rightarrow> u32" where
  "crc32_compute data =
     NOT (foldl (\<lambda>crc b. drop_bit 8 crc XOR crc32_table ((crc XOR ucast b) AND 0xFF))
            0xFFFFFFFF data)"

definition record_calculate_crc :: "BootRecord \<Rightarrow> u32" where
  "record_calculate_crc r = crc32_compute (take CRC_OFFSET (record_bytes r))"

subsection \<open>Validation and the default record\<close>

definition journal_validate :: "BootRecord \<Rightarrow> bool" where
  "journal_validate r =
     (if trailer r \<noteq> JOURNAL_MAGIC then False
      else if crc32 r \<noteq> record_calculate_crc r then False
      else if version r \<noteq> JOURNAL_VERSION then False
      else if tier r < TIER_1 \<or> tier r > TIER_3 then False
      else True)"

text \<open>\<^verbatim>\<open>journal_create_default\<close>; the argument is the value of \<^verbatim>\<open>time(NULL)\<close>.\<close>

definition journal_create_default :: "u64 \<Rightarrow> BootRecord" where
  "journal_create_default now =
     (let r = \<lparr> version = JOURNAL_VERSION, tier = TIER_1, tries_t2 = DEFAULT_TRIES_T2,
                 tries_t3 = DEFAULT_TRIES_T3, rollback_idx = 0, flags = 0, boot_count = 0,
                 timestamp = now, crc32 = 0, trailer = JOURNAL_MAGIC \<rparr>
      in r\<lparr>crc32 := record_calculate_crc r\<rparr>)"

subsection \<open>In-memory mutators\<close>

text \<open>
  Each mutator takes the record behind the pointer and returns the record left there.
  \<^verbatim>\<open>journal_decrement_tries\<close> also returns its \<^verbatim>\<open>int\<close> result: the counter read back
  (an unsigned byte promoted to \<^verbatim>\<open>int\<close>), or \<open>-1\<close> for any other tier.
\<close>

definition journal_decrement_tries :: "BootRecord \<Rightarrow> u8 \<Rightarrow> int \<times> BootRecord" where
  "journal_decrement_tries r t =
     (if t = TIER_2 then
        (let r' = (if tries_t2 r > 0 then r\<lparr>tries_t2 := tries_t2 r - 1\<rparr> else r)
         in (uint (tries_t2 r'), r'))
      else if t = TIER_3 then
        (let r' = (if tries_t3 r > 0 then r\<lparr>tries_t3 := tries_t3 r - 1\<rparr> else r)
         in (uint (tries_t3 r'), r'))
      else (- 1, r))"

definition journal_reset_tries :: "BootRecord \<Rightarrow> BootRecord" where
  "journal_reset_tries r = r\<lparr>tries_t2 := DEFAULT_TRIES_T2, tries_t3 := DEFAULT_TRIES_T3\<rparr>"

definition journal_set_flag :: "BootRecord \<Rightarrow> u32 \<Rightarrow> BootRecord" where
  "journal_set_flag r flag = r\<lparr>flags := flags r OR flag\<rparr>"

definition journal_clear_flag :: "BootRecord \<Rightarrow> u32 \<Rightarrow> BootRecord" where
  "journal_clear_flag r flag = r\<lparr>flags := flags r AND NOT flag\<rparr>"

definition journal_has_flag :: "BootRecord \<Rightarrow> u32 \<Rightarrow> bool" where
  "journal_has_flag r flag = (flags r AND flag \<noteq> 0)"

text \<open>The record after \<open>n\<close> successive calls of \<^verbatim>\<open>journal_decrement_tries(rec, t)\<close>.\<close>

fun decrement_times :: "nat \<Rightarrow> u8 \<Rightarrow> BootRecord \<Rightarrow> BootRecord" where
  "decrement_times 0 t r = r"
| "decrement_times (Suc n) t r = decrement_times n t (snd (journal_decrement_tries r t))"

subsection \<open>The journal file and the system calls\<close>

text \<open>
  The journal file is its byte content. What the kernel does in one call of
  \<^verbatim>\<open>write_page\<close> or \<^verbatim>\<open>read_page\<close> is not decided by the program, so it is an input:
  whether \<^verbatim>\<open>lseek\<close> reaches the offset, the value \<^verbatim>\<open>write\<close> returns (the number of
  bytes it transferred, or a negative value), whether \<^verbatim>\<open>fsync\<close> succeeds, and
  whether \<^verbatim>\<open>read\<close> fails. A \<^verbatim>\<open>read\<close> that does not fail returns the bytes the file
  has at the offset, at most \<open>PAGE_SIZE\<close> of them.
\<close>

type_synonym jfile = "u8 list"

record write_sys =
  w_lseek_ok :: bool
  w_ret :: int
  w_fsync_ok :: bool

record read_sys =
  r_lseek_ok :: bool
  r_read_ok :: bool

definition sys_ok :: write_sys where
  "sys_ok = \<lparr> w_lseek_ok = True, w_ret = int PAGE_SIZE, w_fsync_ok = True \<rparr>"

definition rd_ok :: read_sys where
  "rd_ok = \<lparr> r_lseek_ok = True, r_read_ok = True \<rparr>"

text \<open>The file after \<^verbatim>\<open>write\<close> has transferred the bytes \<open>bs\<close> at offset \<open>off\<close>.\<close>

definition file_put :: "jfile \<Rightarrow> nat \<Rightarrow> u8 list \<Rightarrow> jfile" where
  "file_put f off bs =
     (if bs = [] then f
      else (let g = f @ replicate (off - length f) 0
            in take off g @ bs @ drop (off + length bs) g))"

definition page_bytes :: "jfile \<Rightarrow> nat \<Rightarrow> u8 list" where
  "page_bytes f off = take PAGE_SIZE (drop off f)"

text \<open>\<^verbatim>\<open>read_page\<close>: \<open>Inl\<close> the error code, \<open>Inr\<close> the record read.\<close>

definition read_page :: "read_sys \<Rightarrow> jfile \<Rightarrow> nat \<Rightarrow> int + BootRecord" where
  "read_page sys f off =
     (if \<not> r_lseek_ok sys then Inl JOURNAL_ERR_IO
      else (let n = (if r_read_ok sys then int (length (page_bytes f off)) else - 1)
            in if n \<noteq> int PAGE_SIZE then Inl JOURNAL_ERR_IO
               else Inr (bytes_record (page_bytes f off))))"

text \<open>\<^verbatim>\<open>write_page\<close>: the return code and the file it leaves.\<close>

definition write_page :: "write_sys \<Rightarrow> jfile \<Rightarrow> nat \<Rightarrow> BootRecord \<Rightarrow> int \<times> jfile" where
  "write_page sys f off r =
     (if \<not> w_lseek_ok sys then (JOURNAL_ERR_IO, f)
      else (let n = w_ret sys;
                f' = file_put f off (take (nat n) (record_bytes r))
            in if n \<noteq> int PAGE_SIZE then (JOURNAL_ERR_IO, f')
               else if \<not> w_fsync_ok sys then (JOURNAL_ERR_IO, f')
               else (JOURNAL_OK, f')))"

subsection \<open>Journal state, recovery and commit\<close>

record journal_state =
  path :: "string option"
  fd :: int
  initialized :: bool

text \<open>
  The system calls of one journal operation: the reads of Page A and Page B, the first and
  the second call of \<^verbatim>\<open>write_page\<close> the operation makes, and the clock.
\<close>

record journal_io =
  rd_a :: read_sys
  rd_b :: read_sys
  wr_1 :: write_sys
  wr_2 :: write_sys
  clock :: u64

text \<open>A page as \<^verbatim>\<open>journal_recover\<close> sees it: the record read, when the read succeeded and
  the record validates.\<close>

definition valid_page :: "read_sys \<Rightarrow> jfile \<Rightarrow> nat \<Rightarrow> BootRecord option" where
  "valid_page sys f off =
     (case read_page sys f off of
        Inl e \<Rightarrow> None
      | Inr p \<Rightarrow> if journal_validate p then Some p else None)"

text \<open>\<^verbatim>\<open>journal_recover\<close>: the return code, the record stored through \<^verbatim>\<open>rec\<close> (if any),
  and the file it leaves. The results of the repair writes are dropped, as in the source.\<close>

definition journal_recover ::
  "journal_state \<Rightarrow> journal_io \<Rightarrow> jfile \<Rightarrow> int \<times> BootRecord option \<times> jfile" where
  "journal_recover js io f =
     (if \<not> initialized js \<or> fd js < 0 then (JOURNAL_ERR_INVALID, None, f)
      else
        (case (valid_page (rd_a io) f PAGE_A_OFFSET, valid_page (rd_b io) f PAGE_B_OFFSET) of
           (Some page_a, Some page_b) \<Rightarrow>
             if boot_count page_a \<ge> boot_count page_b then (JOURNAL_OK, Some page_a, f)
             else (JOURNAL_OK, Some page_b, f)
         | (Some page_a, None) \<Rightarrow>
             (JOURNAL_OK, Some page_a, snd (write_page (wr_1 io) f PAGE_B_OFFSET page_a))
         | (None, Some page_b) \<Rightarrow>
             (JOURNAL_OK, Some page_b, snd (write_page (wr_1 io) f PAGE_A_OFFSET page_b))
         | (None, None) \<Rightarrow>
             (let r = journal_create_default (clock io);
                  f1 = snd (write_page (wr_1 io) f PAGE_A_OFFSET r);
                  f2 = snd (write_page (wr_2 io) f1 PAGE_B_OFFSET r)
              in (JOURNAL_OK, Some r, f2))))"

text \<open>\<^verbatim>\<open>journal_read\<close>; \<open>has_rec\<close> tells whether the pointer \<^verbatim>\<open>rec\<close> is non-null.\<close>

definition journal_read ::
  "journal_state \<Rightarrow> journal_io \<Rightarrow> jfile \<Rightarrow> bool \<Rightarrow> int \<times> BootRecord option \<times> jfile" where
  "journal_read js io f has_rec =
     (if \<not> has_rec then (JOURNAL_ERR_INVALID, None, f)
      else if \<not> initialized js \<or> fd js < 0 then (JOURNAL_ERR_INVALID, None, f)
      else journal_recover js io f)"

text \<open>\<^verbatim>\<open>journal_write\<close>; the record argument is \<open>None\<close> for a null pointer.\<close>

definition journal_write ::
  "journal_state \<Rightarrow> journal_io \<Rightarrow> jfile \<Rightarrow> BootRecord option \<Rightarrow> int \<times> jfile" where
  "journal_write js io f rec =
     (case rec of
        None \<Rightarrow> (JOURNAL_ERR_INVALID, f)
      | Some r \<Rightarrow>
          if \<not> initialized js \<or> fd js < 0 then (JOURNAL_ERR_INVALID, f)
          else
            (let u0 = r\<lparr>timestamp := clock io, trailer := JOURNAL_MAGIC\<rparr>;
                 updated = u0\<lparr>crc32 := record_calculate_crc u0\<rparr>
             in if \<not> journal_validate updated then (JOURNAL_ERR_INVALID, f)
                else
                  (case write_page (wr_1 io) f PAGE_A_OFFSET updated of
                     (rc_a, f1) \<Rightarrow>
                       if rc_a \<noteq> JOURNAL_OK then (JOURNAL_ERR_IO, f1)
                       else
                         (case write_page (wr_2 io) f1 PAGE_B_OFFSET updated of
                            (rc_b, f2) \<Rightarrow>
                              if rc_b \<noteq> JOURNAL_OK then (JOURNAL_ERR_IO, f2)
                              else (JOURNAL_OK, f2)))))"

definition journal_close :: "journal_state \<Rightarrow> journal_state" where
  "journal_close js = \<lparr> path = None, fd = - 1, initialized = False \<rparr>"

text \<open>
  \<^verbatim>\<open>journal_init\<close>. The outcomes of \<^verbatim>\<open>strdup\<close> and \<^verbatim>\<open>open\<close> are inputs; \<open>fs\<close> is the
  content of the file at the path, \<open>None\<close> when \<^verbatim>\<open>stat\<close> finds no file. An \<^verbatim>\<open>open\<close> that
  succeeds creates a missing file empty.
\<close>

record init_sys =
  strdup_ok :: bool
  open_ret :: int

definition journal_init ::
  "journal_state \<Rightarrow> init_sys \<Rightarrow> journal_io \<Rightarrow> jfile option \<Rightarrow> string option
     \<Rightarrow> int \<times> journal_state \<times> jfile option" where
  "journal_init js isys io fs p =
     (case p of
        None \<Rightarrow> (JOURNAL_ERR_INVALID, js, fs)
      | Some pth \<Rightarrow>
          (let js1 = (if initialized js then journal_close js else js) in
           if \<not> strdup_ok isys then (JOURNAL_ERR_NOMEM, js1\<lparr>path := None\<rparr>, fs)
           else
             (let exists = (fs \<noteq> None);
                  js2 = js1\<lparr>path := Some pth, fd := open_ret isys\<rparr>
              in if fd js2 < 0 then (JOURNAL_ERR_IO, js2\<lparr>path := None\<rparr>, fs)
                 else
                   (let f0 = (case fs of None \<Rightarrow> [] | Some f \<Rightarrow> f) in
                    if \<not> exists \<or> length f0 < JOURNAL_FILE_SIZE then
                      (let r = journal_create_default (clock io) in
                       case write_page (wr_1 io) f0 PAGE_A_OFFSET r of
                         (rc_a, f1) \<Rightarrow>
                           if rc_a \<noteq> JOURNAL_OK
                           then (JOURNAL_ERR_IO, js2\<lparr>path := None, fd := - 1\<rparr>, Some f1)
                           else
                             (case write_page (wr_2 io) f1 PAGE_B_OFFSET r of
                                (rc_b, f2) \<Rightarrow>
                                  if rc_b \<noteq> JOURNAL_OK
                                  then (JOURNAL_ERR_IO, js2\<lparr>path := None, fd := - 1\<rparr>, Some f2)
                                  else (JOURNAL_OK, js2\<lparr>initialized := True\<rparr>, Some f2)))
                    else (JOURNAL_OK, js2\<lparr>initialized := True\<rparr>, Some f0)))))"

text \<open>A call of \<^verbatim>\<open>write_page\<close> fails when one of its three system calls does.\<close>

definition write_fails :: "write_sys \<Rightarrow> bool" where
  "write_fails sys \<longleftrightarrow> \<not> w_lseek_ok sys \<or> w_ret sys \<noteq> int PAGE_SIZE \<or> \<not> w_fsync_ok sys"

section \<open>Health oracle: health\_check.h and health\_check.c\<close>

subsection \<open>Results, report and configuration\<close>

type_synonym long = "64 word"

record HealthCheckResult =
  ok :: bool
  message :: string
  hvalue :: u32

record HealthReport =
  report_timestamp :: long
  watchdog :: HealthCheckResult
  ecc :: HealthCheckResult
  storage :: HealthCheckResult
  network :: HealthCheckResult
  memory :: HealthCheckResult
  temperature :: HealthCheckResult
  overall_score :: u8
  max_score :: u8
  overall_status :: string

record HealthConfig =
  ecc_threshold :: u32
  mem_min_free_kb :: u32
  storage_min_free_pct :: u8
  network_timeout_sec :: u8
  temp_max_celsius :: u8
  verbose :: bool

definition HEALTH_CONFIG_DEFAULT :: HealthConfig where
  "HEALTH_CONFIG_DEFAULT =
     \<lparr> ecc_threshold = 10, mem_min_free_kb = 10240, storage_min_free_pct = 5,
       network_timeout_sec = 2, temp_max_celsius = 85, verbose = False \<rparr>"

definition HEALTH_OK :: int where "HEALTH_OK = 0"
definition HEALTH_DEGRADED :: int where "HEALTH_DEGRADED = 1"
definition HEALTH_CRITICAL :: int where "HEALTH_CRITICAL = 2"
definition HEALTH_ERROR :: int where "HEALTH_ERROR = - 1"

text \<open>\<^verbatim>\<open>memset(result, 0, sizeof(*result))\<close> and \<^verbatim>\<open>health_report_clear\<close>.\<close>

definition result_zero :: HealthCheckResult where
  "result_zero = \<lparr> ok = False, message = [], hvalue = 0 \<rparr>"

definition health_report_clear :: HealthReport where
  "health_report_clear =
     \<lparr> report_timestamp = 0, watchdog = result_zero, ecc = result_zero,
       storage = result_zero, network = result_zero, memory = result_zero,
       temperature = result_zero, overall_score = 0, max_score = 0, overall_status = [] \<rparr>"

subsection \<open>The host\<close>

text \<open>
  What the probes observe of the machine, and the C library functions they call
  (\<^verbatim>\<open>long\<close> is 64 bits wide):
  \<^item> \<open>h_stat p\<close>: \<open>None\<close> when \<^verbatim>\<open>stat(p)\<close> fails, else whether \<^verbatim>\<open>S_ISCHR\<close> holds;
  \<^item> \<open>h_opendir p\<close>: \<open>None\<close> when \<^verbatim>\<open>opendir(p)\<close> fails, else the names \<^verbatim>\<open>readdir\<close>
    returns in turn;
  \<^item> \<open>h_fopen p\<close>: \<open>None\<close> when \<^verbatim>\<open>fopen(p, "r")\<close> fails, else the text of the file;
  \<^item> \<open>h_statvfs\<close>: \<open>None\<close> when \<^verbatim>\<open>statvfs("/")\<close> fails, else \<^verbatim>\<open>(f_blocks, f_bavail)\<close>;
  \<^item> \<open>h_strerror\<close>: the text of \<^verbatim>\<open>strerror(errno)\<close> after that failure;
  \<^item> \<open>h_system cmd\<close>: the value of \<^verbatim>\<open>system(cmd)\<close>;
  \<^item> \<open>h_atol\<close>, \<open>h_sscanf_ld\<close>: \<^verbatim>\<open>atol\<close>, and \<^verbatim>\<open>sscanf(s, "%ld", &x)\<close> (\<open>None\<close> when it
    converts nothing and leaves \<open>x\<close> as it was);
  \<^item> \<open>h_closed_dir\<close>: the names \<^verbatim>\<open>readdir\<close> returns for the handle of
    \<^verbatim>\<open>/sys/class/thermal\<close> after \<^verbatim>\<open>closedir\<close> has been called on it. C leaves this
    undefined, so the model leaves it to the host; a C library that hands the freed handle
    to the next \<^verbatim>\<open>opendir\<close> yields the names of \<^verbatim>\<open>/sys/class/hwmon\<close> here;
  \<^item> \<open>h_time\<close>: the value of \<^verbatim>\<open>time(NULL)\<close>.
\<close>

record host =
  h_stat :: "string \<Rightarrow> bool option"
  h_opendir :: "string \<Rightarrow> string list option"
  h_fopen :: "string \<Rightarrow> string option"
  h_statvfs :: "(u64 \<times> u64) option"
  h_strerror :: string
  h_system :: "string \<Rightarrow> int"
  h_atol :: "string \<Rightarrow> long"
  h_sscanf_ld :: "string \<Rightarrow> long option"
  h_closed_dir :: "string list"
  h_time :: long

text \<open>A probe that divides by zero or dereferences a null handle does not return: the
  process is killed by the signal.\<close>

datatype signal = SIGFPE | SIGSEGV

subsection \<open>Formatting\<close>

text \<open>\<^verbatim>\<open>%u\<close> and \<^verbatim>\<open>%ld\<close> of \<^verbatim>\<open>snprintf\<close>, and its truncation to the buffer.\<close>

fun fmt_u :: "nat \<Rightarrow> string" where
  "fmt_u n = (if n < 10 then [char_of (48 + n)]
              else fmt_u (n div 10) @ [char_of (48 + n mod 10)])"

declare fmt_u.simps [simp del]

definition fmt_ld :: "int \<Rightarrow> string" where
  "fmt_ld i = (if i < 0 then CHR ''-'' # fmt_u (nat (- i)) else fmt_u (nat i))"

definition snprintf :: "nat \<Rightarrow> string \<Rightarrow> string" where
  "snprintf bufsize s = take (bufsize - 1) s"

text \<open>\<^verbatim>\<open>strncmp(s, p, strlen(p)) == 0\<close> and \<^verbatim>\<open>strstr(s, p) != NULL\<close>.\<close>

definition has_prefix :: "string \<Rightarrow> string \<Rightarrow> bool" where
  "has_prefix s p = (take (length p) s = p)"

fun strstr :: "string \<Rightarrow> string \<Rightarrow> bool" where
  "strstr [] p = (p = [])"
| "strstr (c # cs) p = (has_prefix (c # cs) p \<or> strstr cs p)"

subsection \<open>File helpers\<close>

text \<open>The successive results of \<^verbatim>\<open>fgets(buf, bufsize, f)\<close> over a text: each ends after a
  newline or after \<open>bufsize - 1\<close> characters.\<close>

fun fgets_from :: "nat \<Rightarrow> string \<Rightarrow> string \<Rightarrow> string list" where
  "fgets_from bufsize acc [] = (if acc = [] then [] else [rev acc])"
| "fgets_from bufsize acc (c # cs) =
     (if c = CHR 0x0A \<or> Suc (length acc) \<ge> bufsize - 1
      then rev (c # acc) # fgets_from bufsize [] cs
      else fgets_from bufsize (c # acc) cs)"

definition fgets_all :: "nat \<Rightarrow> string \<Rightarrow> string list" where
  "fgets_all bufsize txt = fgets_from bufsize [] txt"

definition chomp :: "string \<Rightarrow> string" where
  "chomp s = (if s \<noteq> [] \<and> last s = CHR 0x0A then butlast s else s)"

text \<open>\<^verbatim>\<open>read_file_line\<close> with its buffer of 64 bytes: \<open>None\<close> for the result \<open>-1\<close>.\<close>

definition read_file_line :: "host \<Rightarrow> string \<Rightarrow> nat \<Rightarrow> string option" where
  "read_file_line h p bufsize =
     (case h_fopen h p of
        None \<Rightarrow> None
      | Some txt \<Rightarrow>
          (case fgets_all bufsize txt of
             [] \<Rightarrow> None
           | l # ls \<Rightarrow> Some (chomp l)))"

definition read_file_long :: "host \<Rightarrow> string \<Rightarrow> long" where
  "read_file_long h p =
     (case read_file_line h p 64 of None \<Rightarrow> - 1 | Some buf \<Rightarrow> h_atol h buf)"

definition file_exists :: "host \<Rightarrow> string \<Rightarrow> bool" where
  "file_exists h p = (h_stat h p \<noteq> None)"

definition is_char_device :: "host \<Rightarrow> string \<Rightarrow> bool" where
  "is_char_device h p = (case h_stat h p of None \<Rightarrow> False | Some chr \<Rightarrow> chr)"

subsection \<open>Probes\<close>

definition health_check_watchdog :: "host \<Rightarrow> HealthCheckResult" where
  "health_check_watchdog h =
     (if is_char_device h ''/dev/watchdog'' then
        result_zero\<lparr>ok := True,
          message := snprintf 256 ''Watchdog device present at /dev/watchdog''\<rparr>
      else if is_char_device h ''/dev/watchdog0'' then
        result_zero\<lparr>ok := True,
          message := snprintf 256 ''Watchdog device present at /dev/watchdog0''\<rparr>
      else
        result_zero\<lparr>ok := False, message := snprintf 256 ''No watchdog device found''\<rparr>)"

text \<open>One round of the loop over the memory controllers: the totals are 32-bit and the
  counts read are \<^verbatim>\<open>long\<close>, added when not negative.\<close>

definition ecc_entry :: "host \<Rightarrow> u32 \<times> u32 \<Rightarrow> string \<Rightarrow> u32 \<times> u32" where
  "ecc_entry h tot d_name =
     (case tot of (ce_total, ue_total) \<Rightarrow>
        if \<not> has_prefix d_name ''mc'' then (ce_total, ue_total)
        else
          (let ce = read_file_long h
                      (snprintf 256 (''/sys/devices/system/edac/mc/'' @ d_name @ ''/ce_count''));
               ce_total' = (if 0 \<le> sint ce then ce_total + ucast ce else ce_total);
               ue = read_file_long h
                      (snprintf 256 (''/sys/devices/system/edac/mc/'' @ d_name @ ''/ue_count''));
               ue_total' = (if 0 \<le> sint ue then ue_total + ucast ue else ue_total)
           in (ce_total', ue_total')))"

definition health_check_ecc :: "u32 \<Rightarrow> host \<Rightarrow> HealthCheckResult" where
  "health_check_ecc threshold h =
     (if \<not> file_exists h ''/sys/devices/system/edac'' then
        result_zero\<lparr>ok := True, message := snprintf 256 ''EDAC not available, assuming OK''\<rparr>
      else
        (case (case h_opendir h ''/sys/devices/system/edac/mc'' of
                 None \<Rightarrow> (0, 0)
               | Some entries \<Rightarrow> foldl (ecc_entry h) (0, 0) entries) of
           (ce_total, ue_total) \<Rightarrow>
             if ue_total > 0 then
               result_zero\<lparr>hvalue := ce_total, ok := False,
                 message := snprintf 256
                   (''Uncorrectable ECC errors detected: '' @ fmt_u (unat ue_total))\<rparr>
             else if ce_total < threshold then
               result_zero\<lparr>hvalue := ce_total, ok := True,
                 message := snprintf 256
                   (''ECC errors within threshold: '' @ fmt_u (unat ce_total) @ '' < ''
                    @ fmt_u (unat threshold))\<rparr>
             else
               result_zero\<lparr>hvalue := ce_total, ok := False,
                 message := snprintf 256
                   (''ECC errors exceed threshold: '' @ fmt_u (unat ce_total) @ '' >= ''
                    @ fmt_u (unat threshold))\<rparr>))"

text \<open>The percentage is an unsigned 64-bit quotient stored in a byte; a file system that
  reports no blocks makes the division trap.\<close>

definition health_check_storage :: "u8 \<Rightarrow> host \<Rightarrow> signal + HealthCheckResult" where
  "health_check_storage min_free_pct h =
     (case h_statvfs h of
        None \<Rightarrow>
          Inr (result_zero\<lparr>ok := False,
                 message := snprintf 256 (''Failed to check storage: '' @ h_strerror h)\<rparr>)
      | Some (blocks_total, blocks_avail) \<Rightarrow>
          if blocks_total = 0 then Inl SIGFPE
          else
            (let free_pct = (ucast ((blocks_avail * 100) div blocks_total) :: u8) in
             if free_pct \<ge> min_free_pct then
               Inr (result_zero\<lparr>hvalue := ucast free_pct, ok := True,
                      message := snprintf 256
                        (''Storage healthy: '' @ fmt_u (unat free_pct) @ ''% free'')\<rparr>)
             else
               Inr (result_zero\<lparr>hvalue := ucast free_pct, ok := False,
                      message := snprintf 256
                        (''Storage low: '' @ fmt_u (unat free_pct) @ ''% free (min: ''
                         @ fmt_u (unat min_free_pct) @ ''%)'')\<rparr>)))"

definition ping_cmd :: "u8 \<Rightarrow> string \<Rightarrow> string" where
  "ping_cmd timeout_sec target =
     snprintf 256 (''ping -c 1 -W '' @ fmt_u (unat timeout_sec) @ '' '' @ target
                   @ '' >/dev/null 2>&1'')"

fun ping_targets :: "u8 \<Rightarrow> host \<Rightarrow> string list \<Rightarrow> HealthCheckResult" where
  "ping_targets timeout_sec h [] =
     result_zero\<lparr>ok := False, message := snprintf 256 ''Network unreachable''\<rparr>"
| "ping_targets timeout_sec h (t # ts) =
     (if h_system h (ping_cmd timeout_sec t) = 0 then
        result_zero\<lparr>ok := True,
          message := snprintf 256 (''Network reachable (tested: '' @ t @ '')'')\<rparr>
      else ping_targets timeout_sec h ts)"

definition health_check_network :: "u8 \<Rightarrow> host \<Rightarrow> HealthCheckResult" where
  "health_check_network timeout_sec h = ping_targets timeout_sec h [''8.8.8.8'', ''1.1.1.1'']"

text \<open>One line of \<^verbatim>\<open>/proc/meminfo\<close>: the three values are
  \<^verbatim>\<open>(mem_available, mem_free, mem_total)\<close>.\<close>

definition meminfo_line :: "host \<Rightarrow> long \<times> long \<times> long \<Rightarrow> string \<Rightarrow> long \<times> long \<times> long" where
  "meminfo_line h vals line =
     (case vals of (mem_available, mem_free, mem_total) \<Rightarrow>
        if has_prefix line ''MemAvailable:'' then
          (case h_sscanf_ld h (drop 13 line) of
             None \<Rightarrow> vals | Some v \<Rightarrow> (v, mem_free, mem_total))
        else if has_prefix line ''MemFree:'' then
          (case h_sscanf_ld h (drop 8 line) of
             None \<Rightarrow> vals | Some v \<Rightarrow> (mem_available, v, mem_total))
        else if has_prefix line ''MemTotal:'' then
          (case h_sscanf_ld h (drop 9 line) of
             None \<Rightarrow> vals | Some v \<Rightarrow> (mem_available, mem_free, v))
        else vals)"

text \<open>The percentage is a signed 64-bit product and quotient stored in a byte; a total of
  zero makes the division trap. A product beyond 64 bits, which C leaves undefined, wraps
  around; it only reaches the text of the message.\<close>

definition health_check_memory :: "u32 \<Rightarrow> host \<Rightarrow> signal + HealthCheckResult" where
  "health_check_memory min_free_kb h =
     (case h_fopen h ''/proc/meminfo'' of
        None \<Rightarrow>
          Inr (result_zero\<lparr>ok := False, message := snprintf 256 ''Failed to read /proc/meminfo''\<rparr>)
      | Some txt \<Rightarrow>
          (case foldl (meminfo_line h) (- 1, - 1, - 1) (fgets_all 256 txt) of
             (mem_available, mem_free, mem_total) \<Rightarrow>
               (let mem_avail = (if 0 \<le> sint mem_available then mem_available else mem_free) in
                if sint mem_avail < 0 \<or> sint mem_total < 0 then
                  Inr (result_zero\<lparr>ok := False,
                         message := snprintf 256 ''Failed to parse memory info''\<rparr>)
                else if mem_total = 0 then Inl SIGFPE
                else
                  (let mem_pct = (of_int (sint (mem_avail * 100) sdiv sint mem_total) :: u8) in
                   if sint mem_avail \<ge> uint min_free_kb then
                     Inr (result_zero\<lparr>hvalue := ucast mem_avail, ok := True,
                            message := snprintf 256
                              (''Memory healthy: '' @ fmt_ld (sint mem_avail) @ ''KB available (''
                               @ fmt_u (unat mem_pct) @ ''%)'')\<rparr>)
                   else
                     Inr (result_zero\<lparr>hvalue := ucast mem_avail, ok := False,
                            message := snprintf 256
                              (''Low memory: '' @ fmt_ld (sint mem_avail) @ ''KB available (''
                               @ fmt_u (unat mem_pct) @ ''%)'')\<rparr>)))))"

text \<open>One sensor file: a positive reading in millidegrees is divided by 1000, stored in a
  byte and folded into \<^verbatim>\<open>(max_temp, temp_found)\<close>.\<close>

definition temp_reading :: "host \<Rightarrow> u8 \<times> bool \<Rightarrow> string \<Rightarrow> u8 \<times> bool" where
  "temp_reading h st p =
     (case st of (max_temp, temp_found) \<Rightarrow>
        (let temp_millic = read_file_long h p in
         if 0 < sint temp_millic then
           (let temp_c = (of_int (sint temp_millic sdiv 1000) :: u8)
            in (if temp_c > max_temp then temp_c else max_temp, True))
         else (max_temp, temp_found)))"

definition thermal_entry :: "host \<Rightarrow> u8 \<times> bool \<Rightarrow> string \<Rightarrow> u8 \<times> bool" where
  "thermal_entry h st d_name =
     (if \<not> has_prefix d_name ''thermal_zone'' then st
      else temp_reading h st (snprintf 256 (''/sys/class/thermal/'' @ d_name @ ''/temp'')))"

definition sensor_entry :: "host \<Rightarrow> string \<Rightarrow> u8 \<times> bool \<Rightarrow> string \<Rightarrow> u8 \<times> bool" where
  "sensor_entry h hwmon_path st d_name =
     (if strstr d_name ''temp'' \<and> strstr d_name ''_input''
      then temp_reading h st (snprintf 512 (hwmon_path @ ''/'' @ d_name))
      else st)"

definition hwmon_entry :: "host \<Rightarrow> u8 \<times> bool \<Rightarrow> string \<Rightarrow> u8 \<times> bool" where
  "hwmon_entry h st d_name =
     (let hwmon_path = snprintf 256 (''/sys/class/hwmon/'' @ d_name) in
      case h_opendir h hwmon_path of
        None \<Rightarrow> st
      | Some sensors \<Rightarrow> foldl (sensor_entry h hwmon_path) st sensors)"

text \<open>The end of \<^verbatim>\<open>health_check_temperature\<close>, from \<^verbatim>\<open>if (!temp_found)\<close> on. The degree
  sign of the messages is the two bytes \<open>0xC2 0xB0\<close>.\<close>

definition temperature_result :: "u8 \<Rightarrow> u8 \<times> bool \<Rightarrow> HealthCheckResult" where
  "temperature_result max_celsius st =
     (case st of (max_temp, temp_found) \<Rightarrow>
        if \<not> temp_found then
          result_zero\<lparr>ok := True,
            message := snprintf 256 ''Temperature monitoring not available''\<rparr>
        else if max_temp \<le> max_celsius then
          result_zero\<lparr>hvalue := ucast max_temp, ok := True,
            message := snprintf 256
              (''Temperature normal: '' @ fmt_u (unat max_temp) @ [CHR 0xC2, CHR 0xB0]
               @ ''C (max: '' @ fmt_u (unat max_celsius) @ [CHR 0xC2, CHR 0xB0] @ ''C)'')\<rparr>
        else
          result_zero\<lparr>hvalue := ucast max_temp, ok := False,
            message := snprintf 256
              (''Temperature critical: '' @ fmt_u (unat max_temp) @ [CHR 0xC2, CHR 0xB0]
               @ ''C (max: '' @ fmt_u (unat max_celsius) @ [CHR 0xC2, CHR 0xB0] @ ''C)'')\<rparr>)"

text \<open>
  \<^verbatim>\<open>health_check_temperature\<close>. When \<^verbatim>\<open>/sys/class/hwmon\<close> opens, the loop of the source
  reads \<^verbatim>\<open>readdir(thermal_dir)\<close>: a null handle when \<^verbatim>\<open>/sys/class/thermal\<close> did not open,
  and otherwise the handle already closed, whose names are \<open>h_closed_dir\<close>. The handle
  of \<^verbatim>\<open>/sys/class/hwmon\<close> itself is never passed to \<^verbatim>\<open>readdir\<close>.
\<close>

definition health_check_temperature :: "u8 \<Rightarrow> host \<Rightarrow> signal + HealthCheckResult" where
  "health_check_temperature max_celsius h =
     (let thermal_dir = h_opendir h ''/sys/class/thermal'';
          st1 = (case thermal_dir of
                   None \<Rightarrow> (0, False)
                 | Some entries \<Rightarrow> foldl (thermal_entry h) (0, False) entries)
      in case h_opendir h ''/sys/class/hwmon'' of
           None \<Rightarrow> Inr (temperature_result max_celsius st1)
         | Some hwmon_names \<Rightarrow>
             (case thermal_dir of
                None \<Rightarrow> Inl SIGSEGV
              | Some entries \<Rightarrow>
                  Inr (temperature_result max_celsius
                         (foldl (hwmon_entry h) st1 (h_closed_dir h)))))"

text \<open>The temperature probe as the specification words it: the hwmon branch iterates the
  entries of \<^verbatim>\<open>/sys/class/hwmon\<close>.\<close>

definition spec_check_temperature :: "u8 \<Rightarrow> host \<Rightarrow> HealthCheckResult" where
  "spec_check_temperature max_celsius h =
     (let st1 = (case h_opendir h ''/sys/class/thermal'' of
                   None \<Rightarrow> (0, False)
                 | Some entries \<Rightarrow> foldl (thermal_entry h) (0, False) entries);
          st2 = (case h_opendir h ''/sys/class/hwmon'' of
                   None \<Rightarrow> st1
                 | Some hwmon_names \<Rightarrow> foldl (hwmon_entry h) st1 hwmon_names)
      in temperature_result max_celsius st2)"

subsection \<open>Aggregation\<close>

definition health_score_to_status :: "u8 \<Rightarrow> u8 \<Rightarrow> string" where
  "health_score_to_status score mx =
     (if uint score \<ge> (uint mx * 5) div 6 then ''healthy''
      else if uint score \<ge> uint mx div 2 then ''degraded''
      else ''critical'')"

text \<open>\<^verbatim>\<open>if (x.ok) report->overall_score++\<close>.\<close>

definition count_ok :: "HealthCheckResult \<Rightarrow> u8 \<Rightarrow> u8" where
  "count_ok res score = (if ok res then score + 1 else score)"

text \<open>The verdict returned at the end of \<^verbatim>\<open>health_check_run\<close>.\<close>

definition health_verdict :: "u8 \<Rightarrow> int" where
  "health_verdict score =
     (if score \<ge> 5 then HEALTH_OK
      else if score \<ge> 3 then HEALTH_DEGRADED
      else HEALTH_CRITICAL)"

text \<open>\<^verbatim>\<open>health_check_run\<close>; \<open>has_report\<close> tells whether the pointer \<^verbatim>\<open>report\<close> is non-null,
  and the configuration is \<open>None\<close> for a null pointer.\<close>

definition health_check_run ::
  "HealthConfig option \<Rightarrow> bool \<Rightarrow> host \<Rightarrow> signal + (int \<times> HealthReport option)" where
  "health_check_run cfg has_report h =
     (if \<not> has_report then Inr (HEALTH_ERROR, None)
      else
        (let config = (case cfg of None \<Rightarrow> HEALTH_CONFIG_DEFAULT | Some c \<Rightarrow> c);
             r0 = health_report_clear\<lparr>report_timestamp := h_time h\<rparr>;
             r1 = r0\<lparr>watchdog := health_check_watchdog h\<rparr>;
             r2 = r1\<lparr>ecc := health_check_ecc (ecc_threshold config) h\<rparr>
         in case health_check_storage (storage_min_free_pct config) h of
              Inl sg \<Rightarrow> Inl sg
            | Inr sto \<Rightarrow>
                (let r3 = r2\<lparr>storage := sto\<rparr>;
                     r4 = r3\<lparr>network := health_check_network (network_timeout_sec config) h\<rparr>
                 in case health_check_memory (mem_min_free_kb config) h of
                      Inl sg \<Rightarrow> Inl sg
                    | Inr mem \<Rightarrow>
                        (let r5 = r4\<lparr>memory := mem\<rparr> in
                         case health_check_temperature (temp_max_celsius config) h of
                           Inl sg \<Rightarrow> Inl sg
                         | Inr tmp \<Rightarrow>
                             (let r6 = r5\<lparr>temperature := tmp\<rparr>;
                                  score = count_ok (temperature r6) (count_ok (memory r6)
                                           (count_ok (network r6) (count_ok (storage r6)
                                             (count_ok (ecc r6) (count_ok (watchdog r6) 0)))));
                                  r7 = r6\<lparr>overall_score := score, max_score := 6\<rparr>;
                                  status = health_score_to_status (overall_score r7) (max_score r7);
                                  r8 = r7\<lparr>overall_status := take 31 status\<rparr>
                              in Inr (health_verdict (overall_score r8), Some r8))))))"

text \<open>The class of a verdict, as the usage text of \<^verbatim>\<open>health_check_tool.c\<close> names the exit
  codes: 0 healthy, 1 degraded, 2 critical.\<close>

definition verdict_class :: "int \<Rightarrow> string" where
  "verdict_class v =
     (if v = HEALTH_OK then ''healthy''
      else if v = HEALTH_DEGRADED then ''degraded''
      else if v = HEALTH_CRITICAL then ''critical''
      else ''error'')"


section \<open>Concrete inputs\<close>

text \<open>The record \<^verbatim>\<open>journal_write\<close> commits for the caller's record \<open>r\<close> at time \<open>now\<close>:
  timestamp, trailer and checksum are regenerated, in this order.\<close>

definition sealed :: "u64 \<Rightarrow> BootRecord \<Rightarrow> BootRecord" where
  "sealed now r =
     (let u0 = r\<lparr>timestamp := now, trailer := JOURNAL_MAGIC\<rparr>
      in u0\<lparr>crc32 := record_calculate_crc u0\<rparr>)"

definition demo_js :: journal_state where
  "demo_js = \<lparr> path = Some ''/var/pac/journal.dat'', fd = 3, initialized = True \<rparr>"

text \<open>A caller's record whose checksum and trailer are garbage.\<close>

definition garbage_record :: "u64 \<Rightarrow> BootRecord" where
  "garbage_record n =
     \<lparr> version = 1, tier = 2, tries_t2 = 3, tries_t3 = 3, rollback_idx = 0, flags = 4,
       boot_count = n, timestamp = 0, crc32 = 0xDEADBEEF, trailer = 0 \<rparr>"

definition demo_record :: "u64 \<Rightarrow> BootRecord" where
  "demo_record n = sealed 1700000000 (garbage_record n)"

definition short_write :: write_sys where
  "short_write = \<lparr> w_lseek_ok = True, w_ret = 10, w_fsync_ok = True \<rparr>"

definition seek_fails :: write_sys where
  "seek_fails = \<lparr> w_lseek_ok = False, w_ret = 36, w_fsync_ok = True \<rparr>"

definition demo_io :: "write_sys \<Rightarrow> write_sys \<Rightarrow> journal_io" where
  "demo_io w1 w2 = \<lparr> rd_a = rd_ok, rd_b = rd_ok, wr_1 = w1, wr_2 = w2, clock = 1700000100 \<rparr>"

text \<open>A journal file of two pages.\<close>

definition two_pages :: "BootRecord \<Rightarrow> BootRecord \<Rightarrow> jfile" where
  "two_pages a b = record_bytes a @ record_bytes b @ []"

text \<open>A host with nothing to probe.\<close>

definition bare_host :: host where
  "bare_host =
     \<lparr> h_stat = (\<lambda>p. None), h_opendir = (\<lambda>p. None), h_fopen = (\<lambda>p. None),
       h_statvfs = None, h_strerror = ''Function not implemented'', h_system = (\<lambda>c. 256),
       h_atol = (\<lambda>s. 0), h_sscanf_ld = (\<lambda>s. None), h_closed_dir = [],
       h_time = 1700000000 \<rparr>"

text \<open>A host without \<^verbatim>\<open>/sys/class/thermal\<close> whose only sensor is
  \<^verbatim>\<open>/sys/class/hwmon/hwmon0/temp1_input\<close>, reading 95000 millidegrees.\<close>

definition hwmon_host :: host where
  "hwmon_host =
     bare_host
       \<lparr> h_opendir := (\<lambda>p.
            if p = ''/sys/class/hwmon'' then Some [''.'', ''..'', ''hwmon0'']
            else if p = ''/sys/class/hwmon/hwmon0''
              then Some [''.'', ''..'', ''name'', ''temp1_input'']
            else None),
         h_fopen := (\<lambda>p.
            if p = ''/sys/class/hwmon/hwmon0/temp1_input'' then Some (''95000'' @ [CHR 0x0A])
            else None),
         h_atol := (\<lambda>s. if s = ''95000'' then 95000 else 0) \<rparr>"

text \<open>A journal file whose Page B is zeroed.\<close>

definition torn_file :: "BootRecord \<Rightarrow> jfile" where
  "torn_file a = record_bytes a @ replicate PAGE_SIZE 0"




section \<open>Properties of the boot journal\<close>

subsection \<open>Bytes and checksum\<close>

lemma length_le32 [simp]: "length (le32 w) = 4"
  by (simp add: le32_def)

lemma length_le64 [simp]: "length (le64 w) = 8"
  by (simp add: le64_def)

lemma length_record_bytes [simp]: "length (record_bytes r) = PAGE_SIZE"
  by (simp add: record_bytes_def PAGE_SIZE_def)

lemma record_bytes_nonempty [simp]: "record_bytes r \<noteq> []"
  by (simp add: record_bytes_def le32_def)

lemma rd32_le32: "rd32 (le32 w) = w"
proof (rule bit_word_eqI)
  fix n assume "n < LENGTH(32)"
  then have n: "n < 32" by simp
  consider "n < 8" | "8 \<le> n" "n < 16" | "16 \<le> n" "n < 24" | "24 \<le> n"
    by linarith
  then show "bit (rd32 (le32 w)) n \<longleftrightarrow> bit w n"
    using n by cases (auto simp add: rd32_def le32_def bit_simps)
qed

lemma rd64_le64: "rd64 (le64 w) = w"
proof (rule bit_word_eqI)
  fix n assume "n < LENGTH(64)"
  then have n: "n < 64" by simp
  consider "n < 8" | "8 \<le> n" "n < 16" | "16 \<le> n" "n < 24" | "24 \<le> n" "n < 32"
    | "32 \<le> n" "n < 40" | "40 \<le> n" "n < 48" | "48 \<le> n" "n < 56" | "56 \<le> n"
    by linarith
  then show "bit (rd64 (le64 w)) n \<longleftrightarrow> bit w n"
    using n by cases (auto simp add: rd64_def le64_def bit_simps)
qed

text \<open>Reading back the bytes of a record gives the record.\<close>

lemma bytes_record_bytes: "bytes_record (record_bytes r) = r"
proof -
  have v: "rd32 (take 4 (record_bytes r)) = version r"
    using rd32_le32 [of "version r"] by (simp add: record_bytes_def)
  have f: "rd32 (take 4 (drop 8 (record_bytes r))) = flags r"
    using rd32_le32 [of "flags r"] by (simp add: record_bytes_def)
  have b: "rd64 (take 8 (drop 12 (record_bytes r))) = boot_count r"
    using rd64_le64 [of "boot_count r"] by (simp add: record_bytes_def)
  have t: "rd64 (take 8 (drop 20 (record_bytes r))) = timestamp r"
    using rd64_le64 [of "timestamp r"] by (simp add: record_bytes_def)
  have c: "rd32 (take 4 (drop 28 (record_bytes r))) = crc32 r"
    using rd32_le32 [of "crc32 r"] by (simp add: record_bytes_def)
  have m: "rd32 (take 4 (drop 32 (record_bytes r))) = trailer r"
    using rd32_le32 [of "trailer r"] by (simp add: record_bytes_def)
  have n: "record_bytes r ! 4 = tier r" "record_bytes r ! 5 = tries_t2 r"
    "record_bytes r ! 6 = tries_t3 r" "record_bytes r ! 7 = rollback_idx r"
    by (simp_all add: record_bytes_def nth_append)
  show ?thesis
    unfolding bytes_record_def v f b t c m n by simp
qed

lemma record_bytes_inject: "record_bytes a = record_bytes b \<Longrightarrow> a = b"
  by (metis bytes_record_bytes)

text \<open>The checksum covers the bytes before \<^verbatim>\<open>crc32\<close> only.\<close>

lemma crc_prefix:
  "take CRC_OFFSET (record_bytes r) =
     le32 (version r) @ [tier r, tries_t2 r, tries_t3 r, rollback_idx r] @ le32 (flags r)
     @ le64 (boot_count r) @ le64 (timestamp r)"
  by (simp add: record_bytes_def CRC_OFFSET_def)

lemma record_calculate_crc_crc32 [simp]:
  "record_calculate_crc (r\<lparr>crc32 := c\<rparr>) = record_calculate_crc r"
  by (simp add: record_calculate_crc_def crc_prefix)

lemma record_calculate_crc_trailer [simp]:
  "record_calculate_crc (r\<lparr>trailer := c\<rparr>) = record_calculate_crc r"
  by (simp add: record_calculate_crc_def crc_prefix)

lemma tier_range: "(\<not> (t < TIER_1 \<or> t > TIER_3)) = (t = 1 \<or> t = 2 \<or> (t::u8) = 3)"
proof -
  have "(t = 1) = (unat t = 1)" "(t = 2) = (unat t = 2)" "(t = 3) = (unat t = 3)"
    by (simp_all add: word_unat_eq_iff)
  moreover have "(t < 1) = (unat t < 1)" "(3 < t) = (3 < unat t)"
    by (simp_all add: word_less_nat_alt)
  ultimately show ?thesis
    unfolding TIER_1_def TIER_3_def by arith
qed

lemma journal_validate_sealed:
  "journal_validate (sealed now r) \<longleftrightarrow> version r = 1 \<and> (tier r = 1 \<or> tier r = 2 \<or> tier r = 3)"
  using tier_range [of "tier r"]
  by (auto simp add: journal_validate_def sealed_def Let_def JOURNAL_VERSION_def)

lemma journal_validate_default: "journal_validate (journal_create_default now)"
  by (simp add: journal_validate_def journal_create_default_def Let_def
        record_calculate_crc_def crc_prefix TIER_1_def TIER_3_def)

subsection \<open>Pages of the file\<close>

lemma write_page_fst: "fst (write_page sys f off r) \<noteq> JOURNAL_OK \<longleftrightarrow> write_fails sys"
  by (simp add: write_page_def write_fails_def Let_def JOURNAL_OK_def JOURNAL_ERR_IO_def)

lemma drop_file_put_front: "length bs \<le> n \<Longrightarrow> drop n (file_put f 0 bs) = drop n f"
  by (simp add: file_put_def)

lemma file_put_keeps_front:
  "n \<le> off \<Longrightarrow> n \<le> length f \<Longrightarrow> take n (file_put f off bs) = take n f"
  by (simp add: file_put_def Let_def)

lemma write_page_a_keeps_b:
  "page_bytes (snd (write_page sys f PAGE_A_OFFSET r)) PAGE_B_OFFSET = page_bytes f PAGE_B_OFFSET"
  by (simp add: write_page_def Let_def page_bytes_def PAGE_A_OFFSET_def PAGE_B_OFFSET_def
        drop_file_put_front)

lemma write_page_ok_a:
  "\<not> write_fails sys \<Longrightarrow>
     snd (write_page sys f PAGE_A_OFFSET r) = record_bytes r @ drop PAGE_SIZE f"
  by (auto simp add: write_page_def write_fails_def Let_def PAGE_A_OFFSET_def file_put_def
        PAGE_SIZE_def dest: arg_cong [where f = length])

lemma write_page_b_keeps_a:
  "PAGE_SIZE \<le> length f \<Longrightarrow>
   page_bytes (snd (write_page sys f PAGE_B_OFFSET r)) PAGE_A_OFFSET = page_bytes f PAGE_A_OFFSET"
  by (simp add: write_page_def Let_def page_bytes_def PAGE_A_OFFSET_def PAGE_B_OFFSET_def
        file_put_keeps_front)

lemma page_a_two_pages: "page_bytes (two_pages a b) PAGE_A_OFFSET = record_bytes a"
  by (simp add: page_bytes_def two_pages_def PAGE_A_OFFSET_def)

lemma page_b_two_pages: "page_bytes (two_pages a b) PAGE_B_OFFSET = record_bytes b"
  by (simp add: page_bytes_def two_pages_def PAGE_B_OFFSET_def)

lemma read_page_a_two_pages: "read_page rd_ok (two_pages a b) PAGE_A_OFFSET = Inr a"
  by (simp add: read_page_def rd_ok_def page_a_two_pages bytes_record_bytes)

lemma read_page_b_two_pages: "read_page rd_ok (two_pages a b) PAGE_B_OFFSET = Inr b"
  by (simp add: read_page_def rd_ok_def page_b_two_pages bytes_record_bytes)

lemma demo_record_valid: "journal_validate (demo_record n)"
  by (simp add: demo_record_def garbage_record_def journal_validate_sealed)

lemma demo_js_live: "initialized demo_js" "0 \<le> fd demo_js"
  by (simp_all add: demo_js_def)

text \<open>A journal that \<^verbatim>\<open>journal_init\<close> has opened is marked initialized and holds a
  descriptor that is not negative.\<close>

lemma journal_init_ok_live:
  assumes "journal_init js isys io fs p = (JOURNAL_OK, js', fs')"
  shows "initialized js' \<and> 0 \<le> fd js'"
  using assms
  by (auto simp add: journal_init_def Let_def JOURNAL_OK_def JOURNAL_ERR_INVALID_def
        JOURNAL_ERR_NOMEM_def JOURNAL_ERR_IO_def
      split: option.splits if_splits prod.splits)

text \<open>
  Claim C1. When both pages are read and both records validate, \<^verbatim>\<open>journal_recover\<close>
  returns \<^verbatim>\<open>JOURNAL_OK\<close> with the record of the page whose \<open>boot_count\<close> is larger, the
  record of Page A on a tie, and leaves the file as it was: no repair write to either page,
  whatever the system calls of a write would have done.
\<close>

theorem journal_recover_both_valid:
  assumes "initialized js" and "0 \<le> fd js"
    and "read_page (rd_a io) f PAGE_A_OFFSET = Inr a" and "journal_validate a"
    and "read_page (rd_b io) f PAGE_B_OFFSET = Inr b" and "journal_validate b"
  shows "\<exists>r. journal_recover js io f = (JOURNAL_OK, Some r, f)
           \<and> (boot_count b < boot_count a \<longrightarrow> r = a)
           \<and> (boot_count a < boot_count b \<longrightarrow> r = b)
           \<and> (boot_count a = boot_count b \<longrightarrow> r = a)"
  using assms by (auto simp add: journal_recover_def valid_page_def)

theorem journal_recover_both_valid_witness:
  "journal_recover demo_js (demo_io sys_ok sys_ok) (two_pages (demo_record 7) (demo_record 8))
     = (JOURNAL_OK, Some (demo_record 8), two_pages (demo_record 7) (demo_record 8))
   \<and> journal_recover demo_js (demo_io sys_ok sys_ok) (two_pages (demo_record 7) (demo_record 7))
     = (JOURNAL_OK, Some (demo_record 7), two_pages (demo_record 7) (demo_record 7))"
proof -
  let ?io = "demo_io sys_ok sys_ok"
  have ra: "read_page (rd_a ?io) (two_pages (demo_record 7) b) PAGE_A_OFFSET = Inr (demo_record 7)" for b
    by (simp add: demo_io_def read_page_a_two_pages)
  have rb: "read_page (rd_b ?io) (two_pages a b) PAGE_B_OFFSET = Inr b" for a b
    by (simp add: demo_io_def read_page_b_two_pages)
  have bc: "boot_count (demo_record 7) < boot_count (demo_record 8)"
    by (simp add: demo_record_def garbage_record_def sealed_def)
  show ?thesis
    using journal_recover_both_valid [OF demo_js_live ra [of "demo_record 8"]
            demo_record_valid [of 7] rb [of "demo_record 7" "demo_record 8"] demo_record_valid [of 8]]
      journal_recover_both_valid [OF demo_js_live ra [of "demo_record 7"]
            demo_record_valid [of 7] rb [of "demo_record 7" "demo_record 7"] demo_record_valid [of 7]]
      bc
    by auto
qed

text \<open>What \<^verbatim>\<open>journal_write\<close> does once its arguments are accepted.\<close>

lemma journal_write_live:
  assumes "initialized js" and "0 \<le> fd js"
  shows "journal_write js io f (Some r) =
           (let u = sealed (clock io) r in
            if \<not> journal_validate u then (JOURNAL_ERR_INVALID, f)
            else if write_fails (wr_1 io)
              then (JOURNAL_ERR_IO, snd (write_page (wr_1 io) f PAGE_A_OFFSET u))
            else if write_fails (wr_2 io)
              then (JOURNAL_ERR_IO,
                    snd (write_page (wr_2 io) (snd (write_page (wr_1 io) f PAGE_A_OFFSET u))
                           PAGE_B_OFFSET u))
            else (JOURNAL_OK,
                  snd (write_page (wr_2 io) (snd (write_page (wr_1 io) f PAGE_A_OFFSET u))
                         PAGE_B_OFFSET u)))"
proof -
  let ?u = "sealed (clock io) r"
  obtain rc_a f1 where a: "write_page (wr_1 io) f PAGE_A_OFFSET ?u = (rc_a, f1)"
    by (cases "write_page (wr_1 io) f PAGE_A_OFFSET ?u")
  obtain rc_b f2 where b: "write_page (wr_2 io) f1 PAGE_B_OFFSET ?u = (rc_b, f2)"
    by (cases "write_page (wr_2 io) f1 PAGE_B_OFFSET ?u")
  have rc_a: "rc_a \<noteq> JOURNAL_OK \<longleftrightarrow> write_fails (wr_1 io)"
    using write_page_fst [of "wr_1 io" f PAGE_A_OFFSET ?u] a by simp
  have rc_b: "rc_b \<noteq> JOURNAL_OK \<longleftrightarrow> write_fails (wr_2 io)"
    using write_page_fst [of "wr_2 io" f1 PAGE_B_OFFSET ?u] b by simp
  show ?thesis
    using assms a b rc_a rc_b by (simp add: journal_write_def sealed_def Let_def)
qed

text \<open>
  Claim C2. On an initialized journal: if the write of Page A fails (\<^verbatim>\<open>lseek\<close>, a short
  or failed \<^verbatim>\<open>write\<close>, or \<^verbatim>\<open>fsync\<close>), then \<^verbatim>\<open>journal_write\<close> returns \<^verbatim>\<open>JOURNAL_ERR_IO\<close>
  for a record that passes its validation (for any other record no page is written), and
  the bytes of Page B in the file are what they were; and whenever the bytes of Page B
  have changed, the write of Page A had succeeded and Page A holds the new record.
\<close>

theorem journal_write_page_a_failure:
  assumes "initialized js" and "0 \<le> fd js"
  shows "(version r = 1 \<and> tier r \<in> {1, 2, 3} \<and> write_fails (wr_1 io) \<longrightarrow>
            fst (journal_write js io f (Some r)) = JOURNAL_ERR_IO)
       \<and> (write_fails (wr_1 io) \<longrightarrow>
            page_bytes (snd (journal_write js io f (Some r))) PAGE_B_OFFSET
              = page_bytes f PAGE_B_OFFSET)
       \<and> (page_bytes (snd (journal_write js io f (Some r))) PAGE_B_OFFSET
             \<noteq> page_bytes f PAGE_B_OFFSET \<longrightarrow>
            \<not> write_fails (wr_1 io)
            \<and> page_bytes (snd (journal_write js io f (Some r))) PAGE_A_OFFSET
                = record_bytes (sealed (clock io) r))"
proof -
  let ?u = "sealed (clock io) r"
  let ?f1 = "snd (write_page (wr_1 io) f PAGE_A_OFFSET ?u)"
  let ?f2 = "snd (write_page (wr_2 io) ?f1 PAGE_B_OFFSET ?u)"
  have v: "journal_validate ?u \<longleftrightarrow> version r = 1 \<and> tier r \<in> {1, 2, 3}"
    by (simp add: journal_validate_sealed)
  have keep: "page_bytes ?f1 PAGE_B_OFFSET = page_bytes f PAGE_B_OFFSET"
    by (rule write_page_a_keeps_b)
  have ok_a: "page_bytes ?f2 PAGE_A_OFFSET = record_bytes ?u" if nf: "\<not> write_fails (wr_1 io)"
  proof -
    have f1: "?f1 = record_bytes ?u @ drop PAGE_SIZE f"
      using nf by (rule write_page_ok_a)
    then have len: "PAGE_SIZE \<le> length ?f1" by simp
    have "page_bytes ?f2 PAGE_A_OFFSET = page_bytes ?f1 PAGE_A_OFFSET"
      using len by (rule write_page_b_keeps_a)
    also have "\<dots> = record_bytes ?u"
      by (subst f1) (simp add: page_bytes_def PAGE_A_OFFSET_def)
    finally show ?thesis .
  qed
  show ?thesis
    using v keep ok_a by (auto simp add: journal_write_live [OF assms(1,2)] Let_def)
qed

theorem journal_write_page_a_failure_witness:
  "fst (journal_write demo_js (demo_io short_write sys_ok)
          (two_pages (demo_record 7) (demo_record 7)) (Some (garbage_record 8))) = JOURNAL_ERR_IO
   \<and> page_bytes (snd (journal_write demo_js (demo_io short_write sys_ok)
          (two_pages (demo_record 7) (demo_record 7)) (Some (garbage_record 8)))) PAGE_B_OFFSET
       = record_bytes (demo_record 7)"
proof -
  have r: "version (garbage_record 8) = 1" "tier (garbage_record 8) \<in> {1, 2, 3}"
    by (simp_all add: garbage_record_def)
  have w: "write_fails (wr_1 (demo_io short_write sys_ok))"
    by (simp add: demo_io_def short_write_def write_fails_def PAGE_SIZE_def)
  show ?thesis
    using journal_write_page_a_failure [OF demo_js_live,
            where r = "garbage_record 8" and io = "demo_io short_write sys_ok"
              and f = "two_pages (demo_record 7) (demo_record 7)"] r w
    by (auto simp add: page_b_two_pages)
qed

text \<open>
  Claim C9. On an initialized journal and for a non-null record, \<^verbatim>\<open>journal_write\<close> returns
  \<^verbatim>\<open>JOURNAL_ERR_INVALID\<close> exactly when the record's version is not 1 or its tier is not
  1, 2 or 3; and when version and tier are good and neither page write fails it returns
  \<^verbatim>\<open>JOURNAL_OK\<close>, whatever the \<open>crc32\<close>, \<open>trailer\<close> and \<open>timestamp\<close> of the record are.
\<close>

theorem journal_write_validates_semantic_fields:
  assumes "initialized js" and "0 \<le> fd js"
  shows "(fst (journal_write js io f (Some r)) = JOURNAL_ERR_INVALID
            \<longleftrightarrow> version r \<noteq> 1 \<or> tier r \<notin> {1, 2, 3})
       \<and> (version r = 1 \<and> tier r \<in> {1, 2, 3}
            \<and> \<not> write_fails (wr_1 io) \<and> \<not> write_fails (wr_2 io)
          \<longrightarrow> fst (journal_write js io f (Some r)) = JOURNAL_OK)"
proof -
  have v: "journal_validate (sealed (clock io) r) \<longleftrightarrow> version r = 1 \<and> tier r \<in> {1, 2, 3}"
    by (simp add: journal_validate_sealed)
  show ?thesis
    using v
    by (simp add: journal_write_live [OF assms] Let_def
          JOURNAL_ERR_INVALID_def JOURNAL_ERR_IO_def JOURNAL_OK_def)
qed

theorem journal_write_validates_semantic_fields_witness:
  "fst (journal_write demo_js (demo_io sys_ok sys_ok) [] (Some (garbage_record 8))) = JOURNAL_OK
   \<and> fst (journal_write demo_js (demo_io sys_ok sys_ok) [] (Some ((garbage_record 8)\<lparr>tier := 4\<rparr>)))
       = JOURNAL_ERR_INVALID"
proof -
  have w: "\<not> write_fails (wr_1 (demo_io sys_ok sys_ok))" "\<not> write_fails (wr_2 (demo_io sys_ok sys_ok))"
    by (simp_all add: demo_io_def sys_ok_def write_fails_def)
  show ?thesis
    using journal_write_validates_semantic_fields [OF demo_js_live,
            of "demo_io sys_ok sys_ok" "[]" "garbage_record 8"]
      journal_write_validates_semantic_fields [OF demo_js_live,
            of "demo_io sys_ok sys_ok" "[]" "(garbage_record 8)\<lparr>tier := 4\<rparr>"] w
    by (simp add: garbage_record_def)
qed

lemma valid_page_a_torn:
  "journal_validate a \<Longrightarrow> valid_page rd_ok (torn_file a) PAGE_A_OFFSET = Some a"
  by (simp add: valid_page_def read_page_def rd_ok_def torn_file_def page_bytes_def
        PAGE_A_OFFSET_def bytes_record_bytes)

lemma zero_page_trailer: "trailer (bytes_record (replicate 36 0)) = 0"
  by (simp add: bytes_record_def rd32_def numeral_eq_Suc)

lemma valid_page_b_torn: "valid_page rd_ok (torn_file a) PAGE_B_OFFSET = None"
  using zero_page_trailer
  by (simp add: valid_page_def read_page_def rd_ok_def torn_file_def page_bytes_def
        PAGE_B_OFFSET_def journal_validate_def JOURNAL_MAGIC_def PAGE_SIZE_def)

lemma valid_page_empty: "valid_page sys [] off = None"
  by (simp add: valid_page_def read_page_def page_bytes_def PAGE_SIZE_def Let_def)

text \<open>
  Claim C10. On an initialized journal \<^verbatim>\<open>journal_recover\<close> returns \<^verbatim>\<open>JOURNAL_OK\<close> for every
  outcome of the system calls, so also when its repair writes fail; with it comes the
  record of Page A when only Page A is valid, the record of Page B when only Page B is
  valid, and the default record when neither is.
\<close>

theorem journal_recover_ignores_repair_failure:
  assumes "initialized js" and "0 \<le> fd js"
  shows "fst (journal_recover js io f) = JOURNAL_OK
       \<and> (\<forall>a. valid_page (rd_a io) f PAGE_A_OFFSET = Some a
               \<and> valid_page (rd_b io) f PAGE_B_OFFSET = None
             \<longrightarrow> fst (snd (journal_recover js io f)) = Some a)
       \<and> (\<forall>b. valid_page (rd_a io) f PAGE_A_OFFSET = None
               \<and> valid_page (rd_b io) f PAGE_B_OFFSET = Some b
             \<longrightarrow> fst (snd (journal_recover js io f)) = Some b)
       \<and> (valid_page (rd_a io) f PAGE_A_OFFSET = None
               \<and> valid_page (rd_b io) f PAGE_B_OFFSET = None
             \<longrightarrow> fst (snd (journal_recover js io f)) = Some (journal_create_default (clock io)))"
  using assms
  by (simp add: journal_recover_def Let_def split: option.splits)

theorem journal_recover_ignores_repair_failure_witness:
  "fst (journal_recover demo_js (demo_io seek_fails short_write) (torn_file (demo_record 7)))
      = JOURNAL_OK
   \<and> fst (snd (journal_recover demo_js (demo_io seek_fails short_write)
                 (torn_file (demo_record 7)))) = Some (demo_record 7)
   \<and> write_fails (wr_1 (demo_io seek_fails short_write))
   \<and> fst (snd (journal_recover demo_js (demo_io seek_fails short_write) []))
      = Some (journal_create_default 1700000100)
   \<and> write_fails (wr_2 (demo_io seek_fails short_write))"
proof -
  let ?io = "demo_io seek_fails short_write"
  have rd: "rd_a ?io = rd_ok" "rd_b ?io = rd_ok" "clock ?io = 1700000100"
    by (simp_all add: demo_io_def)
  have w: "write_fails (wr_1 ?io)" "write_fails (wr_2 ?io)"
    by (simp_all add: demo_io_def seek_fails_def short_write_def write_fails_def PAGE_SIZE_def)
  show ?thesis
    using journal_recover_ignores_repair_failure [OF demo_js_live, of ?io "torn_file (demo_record 7)"]
      journal_recover_ignores_repair_failure [OF demo_js_live, of ?io "[]"] w
    by (simp add: rd valid_page_a_torn demo_record_valid valid_page_b_torn valid_page_empty)
qed

lemma dec_t2:
  "journal_decrement_tries r TIER_2
     = (int (unat (tries_t2 r) - 1), r\<lparr>tries_t2 := of_nat (unat (tries_t2 r) - 1)\<rparr>)"
proof (cases "tries_t2 r = 0")
  case True
  then show ?thesis by (simp add: journal_decrement_tries_def)
next
  case False
  then have e: "unat (tries_t2 r) - 1 = unat (tries_t2 r - 1)"
    by (simp add: unat_minus_one)
  show ?thesis
    unfolding e using False
    by (simp add: journal_decrement_tries_def word_greater_zero_iff)
qed

lemma dec_t3:
  "journal_decrement_tries r TIER_3
     = (int (unat (tries_t3 r) - 1), r\<lparr>tries_t3 := of_nat (unat (tries_t3 r) - 1)\<rparr>)"
proof (cases "tries_t3 r = 0")
  case True
  then show ?thesis by (simp add: journal_decrement_tries_def TIER_2_def TIER_3_def)
next
  case False
  then have e: "unat (tries_t3 r) - 1 = unat (tries_t3 r - 1)"
    by (simp add: unat_minus_one)
  show ?thesis
    unfolding e using False
    by (simp add: journal_decrement_tries_def word_greater_zero_iff TIER_2_def TIER_3_def)
qed

lemma unat_of_nat_pred: "unat (of_nat (unat (w :: u8) - k) :: u8) = unat w - k"
proof -
  have "unat w - k \<le> unat w" by simp
  also have "unat w < 2 ^ 8" using unsigned_less [of w, where ?'a = nat] by simp
  finally show ?thesis by (simp add: unat_of_nat)
qed

lemma decrement_times_t2:
  "tries_t2 (decrement_times k TIER_2 r) = of_nat (unat (tries_t2 r) - k)"
proof (induction k arbitrary: r)
  case 0
  then show ?case by simp
next
  case (Suc k)
  show ?case by (simp add: Suc.IH dec_t2 unat_of_nat_pred)
qed

lemma decrement_times_t3:
  "tries_t3 (decrement_times k TIER_3 r) = of_nat (unat (tries_t3 r) - k)"
proof (induction k arbitrary: r)
  case 0
  then show ?case by simp
next
  case (Suc k)
  show ?case by (simp add: Suc.IH dec_t3 unat_of_nat_pred)
qed

text \<open>
  Claim C4. \<^verbatim>\<open>journal_decrement_tries\<close> for tier 2 (tier 3) replaces \<open>tries_t2\<close>
  (\<open>tries_t3\<close>) by its predecessor, stopping at 0, changes nothing else, and returns the
  new count; a counter that is 0 leaves the record as it is; the call after \<open>k\<close> earlier
  calls returns the initial count minus \<open>k + 1\<close>, stopping at 0; and for any other tier
  the call returns \<open>-1\<close> and the record is unchanged.
\<close>

theorem journal_decrement_tries_saturates:
  "journal_decrement_tries r TIER_2
     = (int (unat (tries_t2 r) - 1), r\<lparr>tries_t2 := of_nat (unat (tries_t2 r) - 1)\<rparr>)
   \<and> journal_decrement_tries r TIER_3
     = (int (unat (tries_t3 r) - 1), r\<lparr>tries_t3 := of_nat (unat (tries_t3 r) - 1)\<rparr>)
   \<and> (tries_t2 r = 0 \<longrightarrow> snd (journal_decrement_tries r TIER_2) = r)
   \<and> (tries_t3 r = 0 \<longrightarrow> snd (journal_decrement_tries r TIER_3) = r)
   \<and> fst (journal_decrement_tries (decrement_times k TIER_2 r) TIER_2)
        = int (unat (tries_t2 r) - Suc k)
   \<and> fst (journal_decrement_tries (decrement_times k TIER_3 r) TIER_3)
        = int (unat (tries_t3 r) - Suc k)
   \<and> (t \<noteq> 2 \<and> t \<noteq> 3 \<longrightarrow> journal_decrement_tries r t = (- 1, r))"
proof -
  have "fst (journal_decrement_tries (decrement_times k TIER_2 r) TIER_2)
          = int (unat (tries_t2 r) - Suc k)"
    by (simp add: dec_t2 decrement_times_t2 unat_of_nat_pred)
  moreover have "fst (journal_decrement_tries (decrement_times k TIER_3 r) TIER_3)
          = int (unat (tries_t3 r) - Suc k)"
    by (simp add: dec_t3 decrement_times_t3 unat_of_nat_pred)
  moreover have "t \<noteq> 2 \<and> t \<noteq> 3 \<longrightarrow> journal_decrement_tries r t = (- 1, r)"
    by (simp add: journal_decrement_tries_def TIER_2_def TIER_3_def)
  ultimately show ?thesis
    by (simp add: dec_t2 dec_t3)
qed

theorem journal_decrement_tries_saturates_witness:
  "fst (journal_decrement_tries (garbage_record 0) TIER_2) = 2
   \<and> fst (journal_decrement_tries (decrement_times 2 TIER_2 (garbage_record 0)) TIER_2) = 0
   \<and> fst (journal_decrement_tries (decrement_times 5 TIER_2 (garbage_record 0)) TIER_2) = 0
   \<and> snd (journal_decrement_tries ((garbage_record 0)\<lparr>tries_t3 := 0\<rparr>) TIER_3)
       = (garbage_record 0)\<lparr>tries_t3 := 0\<rparr>
   \<and> journal_decrement_tries (garbage_record 0) 7 = (- 1, garbage_record 0)"
  using journal_decrement_tries_saturates [of "garbage_record 0" 2 7]
    journal_decrement_tries_saturates [of "garbage_record 0" 5 7]
    journal_decrement_tries_saturates [of "(garbage_record 0)\<lparr>tries_t3 := 0\<rparr>" 0 7]
  by (simp add: garbage_record_def)

text \<open>
  Claim C8. Setting a flag mask after clearing it gives the same record as setting it
  directly.
\<close>

theorem journal_set_after_clear:
  "journal_set_flag (journal_clear_flag r f) f = journal_set_flag r f"
proof -
  have "(flags r AND NOT f) OR f = flags r OR f"
    by (rule bit_word_eqI) (auto simp add: bit_simps)
  then show ?thesis
    by (simp add: journal_set_flag_def journal_clear_flag_def)
qed

section \<open>Properties of the health oracle\<close>


text \<open>
  Claim C3, as the source has it. When neither \<^verbatim>\<open>/dev/watchdog\<close> nor \<^verbatim>\<open>/dev/watchdog0\<close>
  is a character device, \<^verbatim>\<open>health_check_watchdog\<close> returns \<open>ok = false\<close> with the message
  "No watchdog device found" and the value 0. The theorem after it shows at a host without
  devices that the result is not \<open>ok = true\<close>.
\<close>

theorem health_check_watchdog_absent:
  assumes "\<not> is_char_device h ''/dev/watchdog''" and "\<not> is_char_device h ''/dev/watchdog0''"
  shows "health_check_watchdog h
           = \<lparr> ok = False, message = ''No watchdog device found'', hvalue = 0 \<rparr>"
  using assms by (simp add: health_check_watchdog_def result_zero_def snprintf_def)

theorem health_check_watchdog_absent_witness:
  "health_check_watchdog bare_host
     = \<lparr> ok = False, message = ''No watchdog device found'', hvalue = 0 \<rparr>"
proof -
  have "\<not> is_char_device bare_host ''/dev/watchdog''"
    and "\<not> is_char_device bare_host ''/dev/watchdog0''"
    by (simp_all add: is_char_device_def bare_host_def)
  then show ?thesis by (rule health_check_watchdog_absent)
qed

theorem health_check_watchdog_absent_counterexample:
  "\<not> is_char_device bare_host ''/dev/watchdog''
   \<and> \<not> is_char_device bare_host ''/dev/watchdog0''
   \<and> \<not> ok (health_check_watchdog bare_host)"
  by (simp add: health_check_watchdog_def is_char_device_def bare_host_def result_zero_def)



text \<open>The run returns unless a probe is killed by a signal.\<close>

lemma health_check_run_returns:
  "(\<exists>v rep. health_check_run cfg True h = Inr (v, Some rep)) \<longleftrightarrow>
     (\<exists>a. health_check_storage
            (storage_min_free_pct (case cfg of None \<Rightarrow> HEALTH_CONFIG_DEFAULT | Some c \<Rightarrow> c)) h = Inr a)
   \<and> (\<exists>b. health_check_memory
            (mem_min_free_kb (case cfg of None \<Rightarrow> HEALTH_CONFIG_DEFAULT | Some c \<Rightarrow> c)) h = Inr b)
   \<and> (\<exists>c. health_check_temperature
            (temp_max_celsius (case cfg of None \<Rightarrow> HEALTH_CONFIG_DEFAULT | Some c \<Rightarrow> c)) h = Inr c)"
  by (auto simp add: health_check_run_def Let_def split: sum.splits)

lemma health_check_storage_returns:
  "(\<exists>a. health_check_storage p h = Inr a) \<longleftrightarrow>
     (case h_statvfs h of None \<Rightarrow> True | Some (blocks_total, blocks_avail) \<Rightarrow> blocks_total \<noteq> 0)"
  by (auto simp add: health_check_storage_def Let_def split: option.splits prod.splits)

lemma health_check_temperature_returns:
  "(\<exists>a. health_check_temperature c h = Inr a) \<longleftrightarrow>
     h_opendir h ''/sys/class/hwmon'' = None \<or> h_opendir h ''/sys/class/thermal'' \<noteq> None"
  by (auto simp add: health_check_temperature_def Let_def split: option.splits)



text \<open>
  Claim C6, as the source has it. For \<open>max = 6\<close> the ratio thresholds are 5 and 3, the
  thresholds of the verdict, so the status and the class of the verdict agree for every
  score. They differ for other values of \<open>max\<close>: for \<open>max = 12\<close> the score 5 is
  "critical" while the verdict for 5 is \<^verbatim>\<open>HEALTH_OK\<close>. The theorem after it lists the
  scores 0 to 6.
\<close>

theorem status_and_verdict_agree_at_max_6:
  "health_score_to_status score 6 = verdict_class (health_verdict score)
   \<and> health_score_to_status 5 12 = ''critical''
   \<and> verdict_class (health_verdict 5) = ''healthy''"
  by (simp add: health_score_to_status_def health_verdict_def verdict_class_def word_le_def
        HEALTH_OK_def HEALTH_DEGRADED_def HEALTH_CRITICAL_def)

theorem status_and_verdict_never_differ_counterexample:
  "health_score_to_status 0 6 = verdict_class (health_verdict 0)
   \<and> health_score_to_status 1 6 = verdict_class (health_verdict 1)
   \<and> health_score_to_status 2 6 = verdict_class (health_verdict 2)
   \<and> health_score_to_status 3 6 = verdict_class (health_verdict 3)
   \<and> health_score_to_status 4 6 = verdict_class (health_verdict 4)
   \<and> health_score_to_status 5 6 = verdict_class (health_verdict 5)
   \<and> health_score_to_status 6 6 = verdict_class (health_verdict 6)"
  by (simp add: health_score_to_status_def health_verdict_def verdict_class_def word_le_def
        HEALTH_OK_def HEALTH_DEGRADED_def HEALTH_CRITICAL_def)

text \<open>The probe learns the names of \<^verbatim>\<open>/sys/class/hwmon\<close> only through what the closed
  handle yields: for a fixed \<open>h_closed_dir\<close> they have no influence on its result.\<close>

lemma hwmon_path_differs: "snprintf 256 (''/sys/class/hwmon/'' @ d) \<noteq> ''/sys/class/hwmon''"
proof
  assume "snprintf 256 (''/sys/class/hwmon/'' @ d) = ''/sys/class/hwmon''"
  then have "length (snprintf 256 (''/sys/class/hwmon/'' @ d)) = length ''/sys/class/hwmon''"
    by (rule arg_cong)
  then show False by (simp add: snprintf_def)
qed

lemma health_check_temperature_ignores_hwmon_names:
  assumes "h_opendir h ''/sys/class/hwmon'' = Some names"
  shows "health_check_temperature c (h\<lparr>h_opendir := (h_opendir h)(''/sys/class/hwmon'' := Some names')\<rparr>)
           = health_check_temperature c h"
proof -
  let ?h = "h\<lparr>h_opendir := (h_opendir h)(''/sys/class/hwmon'' := Some names')\<rparr>"
  have rl: "read_file_long ?h = read_file_long h"
    by (rule ext) (simp add: read_file_long_def read_file_line_def split: option.splits list.splits)
  have tr: "temp_reading ?h = temp_reading h"
    by (intro ext) (simp add: temp_reading_def rl)
  have te: "thermal_entry ?h = thermal_entry h"
    by (intro ext) (simp add: thermal_entry_def tr)
  have se: "sensor_entry ?h = sensor_entry h"
    by (intro ext) (simp add: sensor_entry_def tr)
  have op: "h_opendir ?h p = h_opendir h p" if "p \<noteq> ''/sys/class/hwmon''" for p
    using that by simp
  have "hwmon_entry ?h st d = hwmon_entry h st d" for st d
    unfolding hwmon_entry_def Let_def se op [OF hwmon_path_differs] by (rule refl)
  then have he: "hwmon_entry ?h = hwmon_entry h"
    by (intro ext)
  show ?thesis
    unfolding health_check_temperature_def Let_def te he using assms
    by (simp split: option.splits)
qed

text \<open>
  Claim C7 at a host without \<^verbatim>\<open>/sys/class/thermal\<close> whose only sensor is
  \<^verbatim>\<open>/sys/class/hwmon/hwmon0/temp1_input\<close> with 95000 millidegrees, against a maximum of
  85 degrees. The hwmon loop of the source reads the handle of \<^verbatim>\<open>/sys/class/thermal\<close>,
  here a null handle, so the probe is killed and returns no result. Iterating
  \<^verbatim>\<open>/sys/class/hwmon\<close>, as the claim has it, reads the sensor and gives \<open>ok = false\<close>
  with the value 95.
\<close>

theorem health_check_temperature_hwmon_null_handle:
  "health_check_temperature 85 hwmon_host = Inl SIGSEGV
   \<and> ok (spec_check_temperature 85 hwmon_host) = False
   \<and> hvalue (spec_check_temperature 85 hwmon_host) = 95"
  by code_simp

end
